theory Spec2Isabelle
  imports Complex_Main
begin

section \<open>The geofence bounds check of VectorMap.tsx\<close>

text \<open>
  The source, \<^verbatim>\<open>src/components/map/VectorMap.tsx\<close>, lines 202 to 222:
  \<^verbatim>\<open>
  interface Bounds { north: number; south: number; east: number; west: number; }

  const ETHIOPIA_BOUNDS: Bounds = { north: 15.0, south: 3.5, east: 48.0, west: 33.0 };

  export function isWithinBounds(lat: number, lng: number,
                                 bounds: Bounds = ETHIOPIA_BOUNDS): boolean {
      if (typeof lat !== 'number' || typeof lng !== 'number') {
          return false;
      }
      return lat >= bounds.south && lat <= bounds.north
          && lng >= bounds.west && lng <= bounds.east;
  }
  \<close>
  The TypeScript annotations are erased when the program runs, and the function tests the
  run-time type of its first two arguments itself, so the model takes run-time values.
\<close>

subsection \<open>Numbers and their comparison\<close>

text \<open>
  A value of the language's Number type is a not-a-number, an infinity or a finite double.
  The function only compares numbers, and a comparison of two doubles is the comparison
  of the reals they denote, so a finite number is modelled by the real it denotes (both
  zeros by 0). Every double is such a value; the theorems below hold for every real.
\<close>

datatype jsnum = NaN | NegInf | Fin real | PosInf

text \<open>
  The language's abstract operation \<^verbatim>\<open>Number::lessThan(x, y)\<close>, in the order of its
  steps; \<open>None\<close> is its result \<^verbatim>\<open>undefined\<close>. Its steps for two equal numbers and
  for the two zeros return false, as the equations below do at equal arguments.
\<close>

fun Number_lessThan :: "jsnum \<Rightarrow> jsnum \<Rightarrow> bool option" where
  "Number_lessThan NaN y = None"
| "Number_lessThan x NaN = None"
| "Number_lessThan PosInf y = Some False"
| "Number_lessThan x PosInf = Some True"
| "Number_lessThan x NegInf = Some False"
| "Number_lessThan NegInf y = Some True"
| "Number_lessThan (Fin a) (Fin b) = Some (a < b)"

text \<open>
  The relational operators on numbers. \<^verbatim>\<open>x >= y\<close> is false when \<^verbatim>\<open>lessThan(x, y)\<close> is
  true or undefined and true otherwise, that is, when it is false; \<^verbatim>\<open>x <= y\<close> is the
  same of \<^verbatim>\<open>lessThan(y, x)\<close>. \<^verbatim>\<open>x < y\<close> is true when \<^verbatim>\<open>lessThan(x, y)\<close> is true, and
  false when it is false or undefined; \<^verbatim>\<open>x > y\<close> is the same of \<^verbatim>\<open>lessThan(y, x)\<close>.
\<close>

definition js_ge :: "jsnum \<Rightarrow> jsnum \<Rightarrow> bool" where
  "js_ge x y = (Number_lessThan x y = Some False)"

definition js_le :: "jsnum \<Rightarrow> jsnum \<Rightarrow> bool" where
  "js_le x y = (Number_lessThan y x = Some False)"

definition js_lt :: "jsnum \<Rightarrow> jsnum \<Rightarrow> bool" where
  "js_lt x y = (Number_lessThan x y = Some True)"

definition js_gt :: "jsnum \<Rightarrow> jsnum \<Rightarrow> bool" where
  "js_gt x y = (Number_lessThan y x = Some True)"

subsection \<open>Run-time values\<close>

text \<open>
  The values the first two arguments can hold when the function runs. Objects and
  functions are opaque here: the function only asks for their \<^verbatim>\<open>typeof\<close>.
\<close>

datatype jsval =
    JUndefined
  | JNull
  | JBool bool
  | JNum jsnum
  | JBigInt int
  | JStr string
  | JSymbol string
  | JObject nat
  | JFunction nat

fun typeof :: "jsval \<Rightarrow> string" where
  "typeof JUndefined = ''undefined''"
| "typeof JNull = ''object''"
| "typeof (JBool b) = ''boolean''"
| "typeof (JNum n) = ''number''"
| "typeof (JBigInt i) = ''bigint''"
| "typeof (JStr s) = ''string''"
| "typeof (JSymbol s) = ''symbol''"
| "typeof (JObject a) = ''object''"
| "typeof (JFunction a) = ''function''"

subsection \<open>Bounds\<close>

record Bounds =
  north :: jsnum
  south :: jsnum
  east :: jsnum
  west :: jsnum

definition ETHIOPIA_BOUNDS :: Bounds where
  "ETHIOPIA_BOUNDS = \<lparr>north = Fin 15.0, south = Fin 3.5, east = Fin 48.0, west = Fin 33.0\<rparr>"

text \<open>
  The third argument when the function runs: left out or \<^verbatim>\<open>undefined\<close>, \<^verbatim>\<open>null\<close>, or an
  object with the four numeric properties of the interface. The function does not test
  this argument; reading a property of \<^verbatim>\<open>null\<close> or \<^verbatim>\<open>undefined\<close> throws a TypeError.
\<close>

datatype bounds_arg = BoundsUndefined | BoundsNull | BoundsObj Bounds

datatype error = TypeError

text \<open>
  The default of the parameter, \<^verbatim>\<open>bounds: Bounds = ETHIOPIA_BOUNDS\<close>: the language puts
  the default in when the argument is \<^verbatim>\<open>undefined\<close>, and only then.
\<close>

fun default_bounds :: "bounds_arg \<Rightarrow> bounds_arg" where
  "default_bounds BoundsUndefined = BoundsObj ETHIOPIA_BOUNDS"
| "default_bounds a = a"

text \<open>The property reads \<^verbatim>\<open>bounds.south\<close>, \<^verbatim>\<open>bounds.north\<close>, \<^verbatim>\<open>bounds.west\<close>, \<^verbatim>\<open>bounds.east\<close>.\<close>

fun get_prop :: "bounds_arg \<Rightarrow> (Bounds \<Rightarrow> jsnum) \<Rightarrow> error + jsnum" where
  "get_prop BoundsUndefined f = Inl TypeError"
| "get_prop BoundsNull f = Inl TypeError"
| "get_prop (BoundsObj b) f = Inr (f b)"

text \<open>
  One comparison of the chain, \<^verbatim>\<open>x >= bounds.p\<close> or \<^verbatim>\<open>x <= bounds.p\<close>: the property is
  read, then compared.
\<close>

definition compare_prop ::
  "(jsnum \<Rightarrow> jsnum \<Rightarrow> bool) \<Rightarrow> jsnum \<Rightarrow> bounds_arg \<Rightarrow> (Bounds \<Rightarrow> jsnum) \<Rightarrow> error + bool" where
  "compare_prop cmp x bounds f =
     (case get_prop bounds f of Inl e \<Rightarrow> Inl e | Inr v \<Rightarrow> Inr (cmp x v))"

text \<open>
  The operator \<^verbatim>\<open>&&\<close> on booleans: the right operand is evaluated only when the left one
  is true, and an exception of the left operand is the exception of the whole.
\<close>

definition and_then :: "error + bool \<Rightarrow> error + bool \<Rightarrow> error + bool" where
  "and_then l r = (case l of Inl e \<Rightarrow> Inl e | Inr False \<Rightarrow> Inr False | Inr True \<Rightarrow> r)"

subsection \<open>The function\<close>

text \<open>
  \<open>Inr\<close> is the value returned, \<open>Inl\<close> the exception thrown. Past the guard both
  coordinates are numbers (lemma \<open>typeof_number\<close>), so the last case of the match is
  never reached.
\<close>

definition isWithinBounds :: "jsval \<Rightarrow> jsval \<Rightarrow> bounds_arg \<Rightarrow> error + bool" where
  "isWithinBounds lat lng arg =
     (let bounds = default_bounds arg in
      if typeof lat \<noteq> ''number'' \<or> typeof lng \<noteq> ''number'' then Inr False
      else
        (case (lat, lng) of
          (JNum la, JNum lg) \<Rightarrow>
            and_then (compare_prop js_ge la bounds south)
              (and_then (compare_prop js_le la bounds north)
                (and_then (compare_prop js_ge lg bounds west)
                  (compare_prop js_le lg bounds east)))
        | _ \<Rightarrow> Inr False))"

subsection \<open>The contract in the specification's words\<close>

text \<open>
  The place of a number on the extended real line: minus infinity before every finite
  number, plus infinity after; a not-a-number has no place.
\<close>

fun line_pos :: "jsnum \<Rightarrow> (int \<times> real) option" where
  "line_pos NaN = None"
| "line_pos NegInf = Some (- 1, 0)"
| "line_pos (Fin r) = Some (0, r)"
| "line_pos PosInf = Some (1, 0)"

fun pos_le :: "int \<times> real \<Rightarrow> int \<times> real \<Rightarrow> bool" where
  "pos_le (i, a) (j, b) = (i < j \<or> (i = j \<and> a \<le> b))"

text \<open>\<open>x\<close> is within \<open>[lo, hi]\<close> inclusive.\<close>

definition within_inclusive :: "jsnum \<Rightarrow> jsnum \<Rightarrow> jsnum \<Rightarrow> bool" where
  "within_inclusive x lo hi =
     (case (line_pos lo, line_pos x, line_pos hi) of
        (Some l, Some v, Some h) \<Rightarrow> pos_le l v \<and> pos_le v h
      | _ \<Rightarrow> False)"

section \<open>Properties\<close>

subsection \<open>Auxiliary facts\<close>

lemma typeof_number: "typeof v = ''number'' \<longleftrightarrow> (\<exists>n. v = JNum n)"
  by (cases v) simp_all

lemma js_ge_line: "js_ge x y \<longleftrightarrow> (\<exists>p q. line_pos x = Some p \<and> line_pos y = Some q \<and> pos_le q p)"
  by (cases x; cases y) (auto simp add: js_ge_def)

lemma js_le_line: "js_le x y \<longleftrightarrow> (\<exists>p q. line_pos x = Some p \<and> line_pos y = Some q \<and> pos_le p q)"
  by (cases x; cases y) (auto simp add: js_le_def)

lemma js_ge_le: "js_ge x y = js_le y x"
  by (simp add: js_ge_def js_le_def)

lemma js_le_trans: "js_le x y \<Longrightarrow> js_le y z \<Longrightarrow> js_le x z"
  by (cases x; cases y; cases z) (auto simp add: js_le_def)

lemma js_lt_not_le: "js_lt x y \<Longrightarrow> \<not> js_le y x"
  by (cases x; cases y) (auto simp add: js_lt_def js_le_def)

lemma isWithinBounds_numbers:
  "isWithinBounds (JNum la) (JNum lg) (BoundsObj b) =
     Inr (js_ge la (south b) \<and> js_le la (north b) \<and> js_ge lg (west b) \<and> js_le lg (east b))"
  by (simp add: isWithinBounds_def Let_def and_then_def compare_prop_def split: bool.splits)

lemma isWithinBounds_omitted:
  "isWithinBounds lat lng BoundsUndefined = isWithinBounds lat lng (BoundsObj ETHIOPIA_BOUNDS)"
  by (simp add: isWithinBounds_def)

lemma isWithinBounds_not_number:
  "typeof lat \<noteq> ''number'' \<or> typeof lng \<noteq> ''number'' \<Longrightarrow> isWithinBounds lat lng arg = Inr False"
  by (auto simp add: isWithinBounds_def Let_def)

lemma isWithinBounds_null_numbers:
  "isWithinBounds (JNum la) (JNum lg) BoundsNull = Inl TypeError"
  by (simp add: isWithinBounds_def and_then_def compare_prop_def)

lemma isWithinBounds_throws_iff:
  "(\<exists>e. isWithinBounds lat lng arg = Inl e) \<longleftrightarrow>
     arg = BoundsNull \<and> typeof lat = ''number'' \<and> typeof lng = ''number''"
proof (cases "typeof lat \<noteq> ''number'' \<or> typeof lng \<noteq> ''number''")
  case True
  then have "isWithinBounds lat lng arg = Inr False"
    by (rule isWithinBounds_not_number)
  with True show ?thesis
    by auto
next
  case False
  then obtain la lg where num: "lat = JNum la" "lng = JNum lg"
    by (auto simp add: typeof_number)
  show ?thesis
  proof (cases arg)
    case BoundsUndefined
    then show ?thesis
      by (simp add: num isWithinBounds_omitted isWithinBounds_numbers)
  next
    case BoundsNull
    then show ?thesis
      by (simp add: num isWithinBounds_null_numbers)
  next
    case (BoundsObj b)
    then show ?thesis
      by (simp add: num isWithinBounds_numbers)
  qed
qed

lemma within_inclusive_js:
  "within_inclusive x lo hi \<longleftrightarrow> js_ge x lo \<and> js_le x hi"
  by (cases x; cases lo; cases hi) (auto simp add: within_inclusive_def js_ge_def js_le_def)

subsection \<open>Containment\<close>

text \<open>
  C1: for every numeric latitude, numeric longitude and bounds \<open>b\<close>, the function returns
  true if and only if the latitude is within \<open>[south b, north b]\<close> inclusive and the
  longitude is within \<open>[west b, east b]\<close> inclusive; on finite numbers this is the
  comparison of the reals. In particular, with the default rectangle, every point strictly
  inside gives true and every point strictly outside on one of the four sides gives false.
\<close>

theorem isWithinBounds_iff_within:
  "isWithinBounds (JNum la) (JNum lg) (BoundsObj b) =
     Inr (within_inclusive la (south b) (north b) \<and> within_inclusive lg (west b) (east b))
   \<and> isWithinBounds (JNum (Fin x)) (JNum (Fin y))
        (BoundsObj \<lparr>north = Fin n, south = Fin s, east = Fin e, west = Fin w\<rparr>) =
       Inr (s \<le> x \<and> x \<le> n \<and> w \<le> y \<and> y \<le> e)
   \<and> (js_gt la (south ETHIOPIA_BOUNDS) \<and> js_lt la (north ETHIOPIA_BOUNDS) \<and>
       js_gt lg (west ETHIOPIA_BOUNDS) \<and> js_lt lg (east ETHIOPIA_BOUNDS) \<longrightarrow>
         isWithinBounds (JNum la) (JNum lg) BoundsUndefined = Inr True)
   \<and> (js_lt la (south ETHIOPIA_BOUNDS) \<or> js_gt la (north ETHIOPIA_BOUNDS) \<or>
       js_lt lg (west ETHIOPIA_BOUNDS) \<or> js_gt lg (east ETHIOPIA_BOUNDS) \<longrightarrow>
         isWithinBounds (JNum la) (JNum lg) BoundsUndefined = Inr False)"
proof (intro conjI impI)
  show "isWithinBounds (JNum la) (JNum lg) (BoundsObj b) =
     Inr (within_inclusive la (south b) (north b) \<and> within_inclusive lg (west b) (east b))"
    by (simp add: isWithinBounds_numbers within_inclusive_js)
next
  show "isWithinBounds (JNum (Fin x)) (JNum (Fin y))
        (BoundsObj \<lparr>north = Fin n, south = Fin s, east = Fin e, west = Fin w\<rparr>) =
       Inr (s \<le> x \<and> x \<le> n \<and> w \<le> y \<and> y \<le> e)"
    by (auto simp add: isWithinBounds_numbers js_ge_def js_le_def)
next
  assume "js_gt la (south ETHIOPIA_BOUNDS) \<and> js_lt la (north ETHIOPIA_BOUNDS) \<and>
       js_gt lg (west ETHIOPIA_BOUNDS) \<and> js_lt lg (east ETHIOPIA_BOUNDS)"
  then show "isWithinBounds (JNum la) (JNum lg) BoundsUndefined = Inr True"
    by (cases la; cases lg)
       (simp_all add: isWithinBounds_omitted isWithinBounds_numbers ETHIOPIA_BOUNDS_def
          js_gt_def js_lt_def js_ge_def js_le_def)
next
  assume "js_lt la (south ETHIOPIA_BOUNDS) \<or> js_gt la (north ETHIOPIA_BOUNDS) \<or>
       js_lt lg (west ETHIOPIA_BOUNDS) \<or> js_gt lg (east ETHIOPIA_BOUNDS)"
  then show "isWithinBounds (JNum la) (JNum lg) BoundsUndefined = Inr False"
    by (cases la; cases lg)
       (auto simp add: isWithinBounds_omitted isWithinBounds_numbers ETHIOPIA_BOUNDS_def
          js_gt_def js_lt_def js_ge_def js_le_def)
qed

theorem isWithinBounds_iff_within_witness:
  "js_gt (Fin 9) (south ETHIOPIA_BOUNDS) \<and> js_lt (Fin 9) (north ETHIOPIA_BOUNDS) \<and>
   js_gt (Fin 40) (west ETHIOPIA_BOUNDS) \<and> js_lt (Fin 40) (east ETHIOPIA_BOUNDS) \<and>
   isWithinBounds (JNum (Fin 9)) (JNum (Fin 40)) BoundsUndefined = Inr True \<and>
   js_gt (Fin 50) (east ETHIOPIA_BOUNDS) \<and>
   isWithinBounds (JNum (Fin 9)) (JNum (Fin 50)) BoundsUndefined = Inr False"
  using isWithinBounds_iff_within [where la = "Fin 9" and lg = "Fin 40"]
    isWithinBounds_iff_within [where la = "Fin 9" and lg = "Fin 50"]
  by (simp add: ETHIOPIA_BOUNDS_def js_gt_def js_lt_def)

text \<open>
  C2, as amended: for every bounds \<open>b\<close> with \<open>south b \<le> north b\<close>, a latitude equal to
  \<open>north b\<close> or \<open>south b\<close> with the longitude inside \<open>[west b, east b]\<close> gives true; for
  every bounds \<open>b\<close> with \<open>west b \<le> east b\<close>, a longitude equal to \<open>west b\<close> or \<open>east b\<close>
  with the latitude inside \<open>[south b, north b]\<close> gives true. The test is inclusive.
\<close>

theorem isWithinBounds_boundary_inclusive:
  "(js_le (south b) (north b) \<and> (la = north b \<or> la = south b) \<and>
      within_inclusive lg (west b) (east b) \<longrightarrow>
        isWithinBounds (JNum la) (JNum lg) (BoundsObj b) = Inr True)
   \<and> (js_le (west b) (east b) \<and> (lg = west b \<or> lg = east b) \<and>
      within_inclusive la (south b) (north b) \<longrightarrow>
        isWithinBounds (JNum la) (JNum lg) (BoundsObj b) = Inr True)"
proof -
  have refl: "js_le p q \<Longrightarrow> js_le p p \<and> js_le q q" for p q
    by (cases p; cases q) (simp_all add: js_le_def)
  show ?thesis
    by (auto simp add: isWithinBounds_numbers within_inclusive_js js_ge_le dest: refl)
qed

theorem isWithinBounds_boundary_inclusive_witness:
  "js_le (south ETHIOPIA_BOUNDS) (north ETHIOPIA_BOUNDS) \<and>
   Fin 3.5 = south ETHIOPIA_BOUNDS \<and>
   within_inclusive (Fin 40) (west ETHIOPIA_BOUNDS) (east ETHIOPIA_BOUNDS) \<and>
   isWithinBounds (JNum (Fin 3.5)) (JNum (Fin 40)) (BoundsObj ETHIOPIA_BOUNDS) = Inr True \<and>
   js_le (west ETHIOPIA_BOUNDS) (east ETHIOPIA_BOUNDS) \<and>
   Fin 48 = east ETHIOPIA_BOUNDS \<and>
   within_inclusive (Fin 9) (south ETHIOPIA_BOUNDS) (north ETHIOPIA_BOUNDS) \<and>
   isWithinBounds (JNum (Fin 9)) (JNum (Fin 48)) (BoundsObj ETHIOPIA_BOUNDS) = Inr True"
  using isWithinBounds_boundary_inclusive
      [where b = ETHIOPIA_BOUNDS and la = "Fin 3.5" and lg = "Fin 40"]
    isWithinBounds_boundary_inclusive
      [where b = ETHIOPIA_BOUNDS and la = "Fin 9" and lg = "Fin 48"]
  by (simp add: ETHIOPIA_BOUNDS_def js_le_def within_inclusive_def)

text \<open>
  C2 as stated, for every bounds, fails where north is below south: the latitude 0
  equals \<open>north\<close>, the longitude 5 is inside \<open>[west, east] = [0, 10]\<close>, and the result is
  false, since 0 is below \<open>south = 10\<close>.
\<close>

theorem isWithinBounds_boundary_counterexample:
  "Fin 0 = north \<lparr>north = Fin 0, south = Fin 10, east = Fin 10, west = Fin 0\<rparr> \<and>
   within_inclusive (Fin 5)
     (west \<lparr>north = Fin 0, south = Fin 10, east = Fin 10, west = Fin 0\<rparr>)
     (east \<lparr>north = Fin 0, south = Fin 10, east = Fin 10, west = Fin 0\<rparr>) \<and>
   isWithinBounds (JNum (Fin 0)) (JNum (Fin 5))
     (BoundsObj \<lparr>north = Fin 0, south = Fin 10, east = Fin 10, west = Fin 0\<rparr>) = Inr False"
  by (simp add: isWithinBounds_numbers within_inclusive_def js_ge_def js_le_def)

subsection \<open>Arguments that are not numbers\<close>

text \<open>
  C3, as amended: when the latitude or the longitude is not a number (a string, an absent
  value, any other value), the function returns false and raises nothing, whatever the
  third argument; the result is the one of a numeric point outside the region, so the two
  cannot be told apart. An error does exist apart from that: the function throws, a
  TypeError, exactly when the third argument is \<^verbatim>\<open>null\<close> and both coordinates are numbers;
  with the bounds left out, \<^verbatim>\<open>undefined\<close> or a Bounds object it throws nothing.
\<close>

theorem isWithinBounds_non_numeric:
  "(typeof lat \<noteq> ''number'' \<or> typeof lng \<noteq> ''number'' \<longrightarrow>
      isWithinBounds lat lng arg = Inr False \<and>
      (\<not> (within_inclusive la (south b) (north b) \<and> within_inclusive lg (west b) (east b)) \<longrightarrow>
         isWithinBounds (JNum la) (JNum lg) (BoundsObj b) = isWithinBounds lat lng arg))
   \<and> ((\<exists>e. isWithinBounds lat lng arg = Inl e) \<longleftrightarrow>
        arg = BoundsNull \<and> typeof lat = ''number'' \<and> typeof lng = ''number'')"
proof (intro conjI impI)
  assume nn: "typeof lat \<noteq> ''number'' \<or> typeof lng \<noteq> ''number''"
  then show "isWithinBounds lat lng arg = Inr False"
    by (rule isWithinBounds_not_number)
  assume "\<not> (within_inclusive la (south b) (north b) \<and> within_inclusive lg (west b) (east b))"
  then show "isWithinBounds (JNum la) (JNum lg) (BoundsObj b) = isWithinBounds lat lng arg"
    using isWithinBounds_not_number [OF nn, of arg]
    by (simp add: isWithinBounds_numbers within_inclusive_js)
next
  show "(\<exists>e. isWithinBounds lat lng arg = Inl e) \<longleftrightarrow>
        arg = BoundsNull \<and> typeof lat = ''number'' \<and> typeof lng = ''number''"
    by (rule isWithinBounds_throws_iff)
qed

theorem isWithinBounds_non_numeric_witness:
  "typeof (JStr ''9'') \<noteq> ''number'' \<and>
   isWithinBounds (JStr ''9'') (JNum (Fin 40)) BoundsUndefined = Inr False \<and>
   typeof JUndefined \<noteq> ''number'' \<and>
   isWithinBounds (JNum (Fin 9)) JUndefined BoundsNull = Inr False \<and>
   \<not> within_inclusive (Fin 2) (south ETHIOPIA_BOUNDS) (north ETHIOPIA_BOUNDS) \<and>
   isWithinBounds (JNum (Fin 2)) (JNum (Fin 40)) (BoundsObj ETHIOPIA_BOUNDS) =
     isWithinBounds (JStr ''9'') (JNum (Fin 40)) BoundsUndefined \<and>
   typeof (JNum (Fin 2)) = ''number'' \<and> typeof (JNum (Fin 40)) = ''number'' \<and>
   (\<exists>e. isWithinBounds (JNum (Fin 2)) (JNum (Fin 40)) BoundsNull = Inl e) \<and>
   (\<nexists>e. isWithinBounds (JNum (Fin 2)) (JNum (Fin 40)) (BoundsObj ETHIOPIA_BOUNDS) = Inl e)"
proof -
  have t1: "typeof (JStr ''9'') \<noteq> ''number'' \<or> typeof (JNum (Fin 40)) \<noteq> ''number''"
    by simp
  have t2: "typeof (JNum (Fin 9)) \<noteq> ''number'' \<or> typeof JUndefined \<noteq> ''number''"
    by simp
  have out: "\<not> within_inclusive (Fin 2) (south ETHIOPIA_BOUNDS) (north ETHIOPIA_BOUNDS)"
    by (simp add: ETHIOPIA_BOUNDS_def within_inclusive_def)
  have a: "isWithinBounds (JStr ''9'') (JNum (Fin 40)) BoundsUndefined = Inr False"
    and b: "isWithinBounds (JNum (Fin 2)) (JNum (Fin 40)) (BoundsObj ETHIOPIA_BOUNDS) =
      isWithinBounds (JStr ''9'') (JNum (Fin 40)) BoundsUndefined"
    using isWithinBounds_non_numeric
        [where lat = "JStr ''9''" and lng = "JNum (Fin 40)" and arg = BoundsUndefined
           and la = "Fin 2" and lg = "Fin 40" and b = ETHIOPIA_BOUNDS] t1 out
    by blast+
  have c: "isWithinBounds (JNum (Fin 9)) JUndefined BoundsNull = Inr False"
    using isWithinBounds_non_numeric
        [where lat = "JNum (Fin 9)" and lng = JUndefined and arg = BoundsNull] t2
    by blast
  have ty: "typeof (JNum (Fin 2)) = ''number''" "typeof (JNum (Fin 40)) = ''number''"
    by simp_all
  have d: "\<exists>e. isWithinBounds (JNum (Fin 2)) (JNum (Fin 40)) BoundsNull = Inl e"
    using isWithinBounds_non_numeric
        [where lat = "JNum (Fin 2)" and lng = "JNum (Fin 40)" and arg = BoundsNull] ty
    by blast
  have ne: "BoundsObj ETHIOPIA_BOUNDS \<noteq> BoundsNull"
    by simp
  have e: "\<nexists>e. isWithinBounds (JNum (Fin 2)) (JNum (Fin 40)) (BoundsObj ETHIOPIA_BOUNDS) = Inl e"
    using isWithinBounds_non_numeric
        [where lat = "JNum (Fin 2)" and lng = "JNum (Fin 40)" and arg = "BoundsObj ETHIOPIA_BOUNDS"] ne
    by blast
  have "typeof (JStr ''9'') \<noteq> ''number''" and "typeof JUndefined \<noteq> ''number''"
    by simp_all
  with a b c d e ty out show ?thesis
    by blast
qed

text \<open>
  C3 as stated, with no other error kind, fails on \<^verbatim>\<open>null\<close> as bounds: the numeric point
  \<open>(2, 40)\<close>, which lies outside the default region, gets neither true nor false there but
  a TypeError, thrown by the read of \<^verbatim>\<open>bounds.south\<close>.
\<close>

theorem isWithinBounds_error_kind_counterexample:
  "typeof (JNum (Fin 2)) = ''number'' \<and> typeof (JNum (Fin 40)) = ''number'' \<and>
   isWithinBounds (JNum (Fin 2)) (JNum (Fin 40)) BoundsNull = Inl TypeError \<and>
   isWithinBounds (JNum (Fin 2)) (JNum (Fin 40)) BoundsNull \<noteq> Inr False"
  by (simp add: isWithinBounds_null_numbers)

subsection \<open>The default rectangle\<close>

text \<open>
  C4: with the bounds left out, so under the default bounds, \<open>(9.0, 40.0)\<close> gives true,
  \<open>(9.0, 50.0)\<close> false, \<open>(3.5, 40.0)\<close> true, \<open>(2.0, 40.0)\<close> false, and the string \<open>"9"\<close> as
  latitude with longitude \<open>40.0\<close> false.
\<close>

theorem isWithinBounds_scenarios:
  "isWithinBounds (JNum (Fin 9.0)) (JNum (Fin 40.0)) BoundsUndefined = Inr True \<and>
   isWithinBounds (JNum (Fin 9.0)) (JNum (Fin 50.0)) BoundsUndefined = Inr False \<and>
   isWithinBounds (JNum (Fin 3.5)) (JNum (Fin 40.0)) BoundsUndefined = Inr True \<and>
   isWithinBounds (JNum (Fin 2.0)) (JNum (Fin 40.0)) BoundsUndefined = Inr False \<and>
   isWithinBounds (JStr ''9'') (JNum (Fin 40.0)) BoundsUndefined = Inr False"
  by (simp add: isWithinBounds_def ETHIOPIA_BOUNDS_def and_then_def compare_prop_def
      js_ge_def js_le_def)

theorem isWithinBounds_scenarios_witness:
  "isWithinBounds (JNum (Fin 3.5)) (JNum (Fin 40.0)) BoundsUndefined = Inr True"
  using isWithinBounds_scenarios by (elim conjE)

text \<open>
  C5: the bounds parameter is optional; a call without it is the call with the constant
  \<open>ETHIOPIA_BOUNDS\<close>, whose boundaries are north 15.0, south 3.5, east 48.0, west 33.0.
\<close>

theorem isWithinBounds_default:
  "isWithinBounds lat lng BoundsUndefined = isWithinBounds lat lng (BoundsObj ETHIOPIA_BOUNDS) \<and>
   north ETHIOPIA_BOUNDS = Fin 15.0 \<and> south ETHIOPIA_BOUNDS = Fin 3.5 \<and>
   east ETHIOPIA_BOUNDS = Fin 48.0 \<and> west ETHIOPIA_BOUNDS = Fin 33.0"
  by (simp add: isWithinBounds_omitted ETHIOPIA_BOUNDS_def)

theorem isWithinBounds_default_witness:
  "isWithinBounds (JNum (Fin 15)) (JNum (Fin 33)) BoundsUndefined =
     isWithinBounds (JNum (Fin 15)) (JNum (Fin 33))
       (BoundsObj \<lparr>north = Fin 15, south = Fin 3.5, east = Fin 48, west = Fin 33\<rparr>)"
  using isWithinBounds_default [of "JNum (Fin 15)" "JNum (Fin 33)"]
  by (simp add: ETHIOPIA_BOUNDS_def)

text \<open>
  C6: custom bounds override the default. The point \<open>(20, 40)\<close> is outside the default
  rectangle and inside the rectangle with north 25, south 16, east 48, west 33: the call
  without bounds gives false, the call with this rectangle gives true.
\<close>

theorem isWithinBounds_custom_overrides:
  "\<not> within_inclusive (Fin 20) (south ETHIOPIA_BOUNDS) (north ETHIOPIA_BOUNDS) \<and>
   isWithinBounds (JNum (Fin 20)) (JNum (Fin 40)) BoundsUndefined = Inr False \<and>
   isWithinBounds (JNum (Fin 20)) (JNum (Fin 40))
     (BoundsObj \<lparr>north = Fin 25, south = Fin 16, east = Fin 48, west = Fin 33\<rparr>) = Inr True"
  by (simp add: isWithinBounds_omitted isWithinBounds_numbers ETHIOPIA_BOUNDS_def
      within_inclusive_def js_ge_def js_le_def)

theorem isWithinBounds_custom_overrides_witness:
  "\<exists>lat lng b. isWithinBounds lat lng BoundsUndefined = Inr False \<and>
     isWithinBounds lat lng (BoundsObj b) = Inr True"
  using isWithinBounds_custom_overrides by blast

text \<open>
  C8: the default constant satisfies the invariant of Bounds: its north, 15.0, is
  strictly greater than its south, 3.5, and its east, 48.0, strictly greater than its
  west, 33.0.
\<close>

theorem ETHIOPIA_BOUNDS_invariant:
  "js_gt (north ETHIOPIA_BOUNDS) (south ETHIOPIA_BOUNDS) \<and>
   js_gt (east ETHIOPIA_BOUNDS) (west ETHIOPIA_BOUNDS) \<and>
   north ETHIOPIA_BOUNDS = Fin 15.0 \<and> south ETHIOPIA_BOUNDS = Fin 3.5 \<and>
   east ETHIOPIA_BOUNDS = Fin 48.0 \<and> west ETHIOPIA_BOUNDS = Fin 33.0"
  by (simp add: ETHIOPIA_BOUNDS_def js_gt_def)

subsection \<open>Returning and throwing\<close>

text \<open>
  C7, as amended: for every latitude and longitude, numbers or not, not-a-number
  included, and every third argument that is left out, \<^verbatim>\<open>undefined\<close> or a Bounds object
  with whatever numeric boundaries, the function returns a boolean and throws nothing.
  The result is a function of the three arguments alone.
\<close>

theorem isWithinBounds_returns:
  "arg \<noteq> BoundsNull \<Longrightarrow> \<exists>r. isWithinBounds lat lng arg = Inr r"
proof (cases "typeof lat \<noteq> ''number'' \<or> typeof lng \<noteq> ''number''")
  case True
  then show ?thesis
    using isWithinBounds_not_number [of lat lng arg] by blast
next
  case False
  then obtain la lg where num: "lat = JNum la" "lng = JNum lg"
    by (auto simp add: typeof_number)
  assume "arg \<noteq> BoundsNull"
  then show ?thesis
  proof (cases arg)
    case BoundsUndefined
    then show ?thesis
      by (simp add: num isWithinBounds_omitted isWithinBounds_numbers)
  next
    case (BoundsObj b)
    then show ?thesis
      by (simp add: num isWithinBounds_numbers)
  qed simp
qed

theorem isWithinBounds_returns_witness:
  "BoundsObj \<lparr>north = NaN, south = PosInf, east = Fin 0, west = Fin 1\<rparr> \<noteq> BoundsNull \<and>
   (\<exists>r. isWithinBounds (JNum NaN) (JNum (Fin 40))
      (BoundsObj \<lparr>north = NaN, south = PosInf, east = Fin 0, west = Fin 1\<rparr>) = Inr r) \<and>
   BoundsUndefined \<noteq> BoundsNull \<and>
   (\<exists>r. isWithinBounds (JObject 0) (JNum NegInf) BoundsUndefined = Inr r)"
proof -
  have n1: "BoundsObj \<lparr>north = NaN, south = PosInf, east = Fin 0, west = Fin 1\<rparr> \<noteq> BoundsNull"
    by simp
  have n2: "BoundsUndefined \<noteq> BoundsNull"
    by simp
  show ?thesis
    using n1 n2 isWithinBounds_returns [OF n1, of "JNum NaN" "JNum (Fin 40)"]
      isWithinBounds_returns [OF n2, of "JObject 0" "JNum NegInf"]
    by blast
qed

text \<open>
  C7 as stated, for every input, fails on \<^verbatim>\<open>null\<close> as bounds with numeric coordinates: the
  default is not put in for \<^verbatim>\<open>null\<close>, the guard passes, and reading \<^verbatim>\<open>bounds.south\<close>
  throws a TypeError.
\<close>

theorem isWithinBounds_null_bounds_counterexample:
  "isWithinBounds (JNum (Fin 9)) (JNum (Fin 40)) BoundsNull = Inl TypeError"
  by (simp add: isWithinBounds_def and_then_def compare_prop_def)

subsection \<open>Degenerate and nested rectangles\<close>

text \<open>
  C9: when the bounds \<open>b\<close> have their north below their south, or their east below
  their west, the function returns false for every latitude and longitude, and it returns:
  nothing is thrown.
\<close>

theorem isWithinBounds_degenerate:
  "js_lt (north b) (south b) \<or> js_lt (east b) (west b) \<Longrightarrow>
     isWithinBounds lat lng (BoundsObj b) = Inr False"
proof (cases "typeof lat \<noteq> ''number'' \<or> typeof lng \<noteq> ''number''")
  case True
  then show ?thesis
    by (rule isWithinBounds_not_number)
next
  case False
  then obtain la lg where num: "lat = JNum la" "lng = JNum lg"
    by (auto simp add: typeof_number)
  assume deg: "js_lt (north b) (south b) \<or> js_lt (east b) (west b)"
  have "\<not> (js_le (south b) la \<and> js_le la (north b) \<and> js_le (west b) lg \<and> js_le lg (east b))"
  proof
    assume in_b: "js_le (south b) la \<and> js_le la (north b) \<and> js_le (west b) lg \<and> js_le lg (east b)"
    then have "js_le (south b) (north b)" and "js_le (west b) (east b)"
      by (blast intro: js_le_trans)+
    with deg show False
      by (blast dest: js_lt_not_le)
  qed
  then show ?thesis
    by (simp add: num isWithinBounds_numbers js_ge_le)
qed

theorem isWithinBounds_degenerate_witness:
  "js_lt (north \<lparr>north = Fin 0, south = Fin 10, east = Fin 10, west = Fin 0\<rparr>)
     (south \<lparr>north = Fin 0, south = Fin 10, east = Fin 10, west = Fin 0\<rparr>) \<and>
   isWithinBounds (JNum (Fin 5)) (JNum (Fin 5))
     (BoundsObj \<lparr>north = Fin 0, south = Fin 10, east = Fin 10, west = Fin 0\<rparr>) = Inr False"
proof -
  have deg: "js_lt (north \<lparr>north = Fin 0, south = Fin 10, east = Fin 10, west = Fin 0\<rparr>)
     (south \<lparr>north = Fin 0, south = Fin 10, east = Fin 10, west = Fin 0\<rparr>)"
    by (simp add: js_lt_def)
  show ?thesis
    using deg isWithinBounds_degenerate [OF disjI1, OF deg, of "JNum (Fin 5)" "JNum (Fin 5)"]
    by blast
qed

text \<open>
  C10: the function is monotone in the bounds. When \<open>b1\<close> is contained in \<open>b2\<close>
  (\<open>south b2 \<le> south b1\<close>, \<open>north b1 \<le> north b2\<close>, \<open>west b2 \<le> west b1\<close>,
  \<open>east b1 \<le> east b2\<close>), a point for which the function returns true with \<open>b1\<close> gets
  true with \<open>b2\<close> too.
\<close>

theorem isWithinBounds_monotone:
  assumes "js_le (south b2) (south b1)" and "js_le (north b1) (north b2)"
    and "js_le (west b2) (west b1)" and "js_le (east b1) (east b2)"
    and "isWithinBounds lat lng (BoundsObj b1) = Inr True"
  shows "isWithinBounds lat lng (BoundsObj b2) = Inr True"
proof (cases "typeof lat \<noteq> ''number'' \<or> typeof lng \<noteq> ''number''")
  case True
  then have "isWithinBounds lat lng (BoundsObj b1) = Inr False"
    by (rule isWithinBounds_not_number)
  with assms(5) show ?thesis
    by simp
next
  case False
  then obtain la lg where num: "lat = JNum la" "lng = JNum lg"
    by (auto simp add: typeof_number)
  from assms(5) have in_b1:
    "js_le (south b1) la" "js_le la (north b1)" "js_le (west b1) lg" "js_le lg (east b1)"
    by (simp_all add: num isWithinBounds_numbers js_ge_le)
  have "js_le (south b2) la"
    using assms(1) in_b1(1) by (rule js_le_trans)
  moreover have "js_le la (north b2)"
    using in_b1(2) assms(2) by (rule js_le_trans)
  moreover have "js_le (west b2) lg"
    using assms(3) in_b1(3) by (rule js_le_trans)
  moreover have "js_le lg (east b2)"
    using in_b1(4) assms(4) by (rule js_le_trans)
  ultimately show ?thesis
    by (simp add: num isWithinBounds_numbers js_ge_le)
qed

theorem isWithinBounds_monotone_witness:
  "js_le (south \<lparr>north = Fin 25, south = Fin 0, east = Fin 50, west = Fin 30\<rparr>)
     (south ETHIOPIA_BOUNDS) \<and>
   js_le (north ETHIOPIA_BOUNDS)
     (north \<lparr>north = Fin 25, south = Fin 0, east = Fin 50, west = Fin 30\<rparr>) \<and>
   js_le (west \<lparr>north = Fin 25, south = Fin 0, east = Fin 50, west = Fin 30\<rparr>)
     (west ETHIOPIA_BOUNDS) \<and>
   js_le (east ETHIOPIA_BOUNDS)
     (east \<lparr>north = Fin 25, south = Fin 0, east = Fin 50, west = Fin 30\<rparr>) \<and>
   isWithinBounds (JNum (Fin 9)) (JNum (Fin 40)) (BoundsObj ETHIOPIA_BOUNDS) = Inr True \<and>
   isWithinBounds (JNum (Fin 9)) (JNum (Fin 40))
     (BoundsObj \<lparr>north = Fin 25, south = Fin 0, east = Fin 50, west = Fin 30\<rparr>) = Inr True"
proof -
  let ?b2 = "\<lparr>north = Fin 25, south = Fin 0, east = Fin 50, west = Fin 30\<rparr>"
  have s: "js_le (south ?b2) (south ETHIOPIA_BOUNDS)"
    and n: "js_le (north ETHIOPIA_BOUNDS) (north ?b2)"
    and w: "js_le (west ?b2) (west ETHIOPIA_BOUNDS)"
    and e: "js_le (east ETHIOPIA_BOUNDS) (east ?b2)"
    by (simp_all add: ETHIOPIA_BOUNDS_def js_le_def)
  have inner: "isWithinBounds (JNum (Fin 9)) (JNum (Fin 40)) (BoundsObj ETHIOPIA_BOUNDS) = Inr True"
    by (simp add: isWithinBounds_numbers ETHIOPIA_BOUNDS_def js_ge_def js_le_def)
  show ?thesis
    using s n w e inner isWithinBounds_monotone [OF s n w e inner]
    by blast
qed

end
